theory Spec2Isabelle
  imports Main
begin

section \<open>The GitHub issue plugin of sentry\_github\<close>

text \<open>
  A shallow embedding of \<^verbatim>\<open>src/sentry_github/plugin.py\<close>: the options form
  (\<^verbatim>\<open>GitHubOptionsForm\<close>) and the plugin (\<^verbatim>\<open>GitHubPlugin\<close>). The host framework
  (option storage, credential lookup, the HTTP helpers and the JSON parser) is not part
  of the repository; it is a parameter of every operation, the record \<open>host\<close> below.
\<close>

subsection \<open>Python values and exceptions\<close>

text \<open>
  The values \<^verbatim>\<open>json.loads\<close> returns, which are also the values a form hands over:
  \<^verbatim>\<open>None\<close>, booleans, integers, strings, lists and dictionaries (the items of a
  dictionary as an association list, looked up by key). Numbers with a fraction are
  left out: the plugin passes numbers on and never computes with them.
\<close>

datatype json =
    JNull
  | JBool bool
  | JNum int
  | JStr string
  | JArr "json list"
  | JObj "(string \<times> json) list"

text \<open>
  The exceptions that occur: \<^verbatim>\<open>forms.ValidationError\<close> with its message,
  \<^verbatim>\<open>requests.RequestException\<close> and \<^verbatim>\<open>ValueError\<close> with the text
  \<^verbatim>\<open>unicode(e)\<close> gives, \<^verbatim>\<open>KeyError\<close> with the missing key, \<^verbatim>\<open>TypeError\<close>,
  \<^verbatim>\<open>AttributeError\<close> with the missing attribute, and any other exception a host
  helper may raise.
\<close>

datatype exn =
    ValidationError json
  | RequestException string
  | ValueError string
  | KeyError string
  | TypeError
  | AttributeError string
  | OtherException string

subsection \<open>The host framework\<close>

record auth =
  tokens :: "string \<rightharpoonup> string"

record response =
  status_code :: int
  raw :: string

record request =
  user :: nat

record group =
  project :: nat

text \<open>One outbound HTTP call: the arguments \<^verbatim>\<open>safe_urlopen\<close> was given.\<close>

record http_call =
  url :: string
  json_arg :: "json option"
  headers :: "(string \<times> string) list"

record host =
  get_option :: "string \<Rightarrow> nat \<Rightarrow> string option"
  get_auth_for_user :: "nat \<Rightarrow> auth option"
  safe_urlopen :: "string \<Rightarrow> json option \<Rightarrow> (string \<times> string) list \<Rightarrow> exn + response"
  safe_urlread :: "response \<Rightarrow> exn + string"
  loads :: "string \<Rightarrow> exn + json"

subsection \<open>Python string operations\<close>

text \<open>\<^verbatim>\<open>s.rstrip(chars)\<close>: drop every trailing character that is in \<open>chars\<close>.\<close>

definition rstrip :: "string \<Rightarrow> string \<Rightarrow> string" where
  "rstrip s chars = rev (dropWhile (\<lambda>c. c \<in> set chars) (rev s))"

text \<open>
  \<^verbatim>\<open>fmt % args\<close> for a format string whose only conversion is \<^verbatim>\<open>%s\<close> (the only one
  the plugin uses), on arguments already turned into strings. Too few or too many
  arguments are a \<^verbatim>\<open>TypeError\<close>, another conversion character a \<^verbatim>\<open>ValueError\<close>.
  An argument is copied, never scanned for conversions.
\<close>

fun py_format :: "string \<Rightarrow> string list \<Rightarrow> exn + string" where
  "py_format [] args = (if args = [] then Inr [] else Inl TypeError)"
| "py_format [c] args =
     (if c = CHR ''%'' then Inl (ValueError ''incomplete format'')
      else if args = [] then Inr [c] else Inl TypeError)"
| "py_format (c # d # fs) args =
     (if c = CHR ''%'' then
        (if d = CHR ''s'' then
           (case args of
              [] \<Rightarrow> Inl TypeError
            | a # args' \<Rightarrow>
                (case py_format fs args' of Inl e \<Rightarrow> Inl e | Inr r \<Rightarrow> Inr (a @ r)))
         else Inl (ValueError ''unsupported format character''))
      else (case py_format (d # fs) args of Inl e \<Rightarrow> Inl e | Inr r \<Rightarrow> Inr (c # r)))"

text \<open>\<^verbatim>\<open>value or default\<close> on an option value: \<^verbatim>\<open>None\<close> and the empty string are false.\<close>

definition py_or :: "string option \<Rightarrow> string \<Rightarrow> string" where
  "py_or v d = (case v of None \<Rightarrow> d | Some s \<Rightarrow> if s = [] then d else s)"

text \<open>What \<^verbatim>\<open>%s\<close> prints for an option value: \<^verbatim>\<open>None\<close> prints as the word.\<close>

definition str_option :: "string option \<Rightarrow> string" where
  "str_option v = (case v of None \<Rightarrow> ''None'' | Some s \<Rightarrow> s)"

text \<open>Decimal digits of a natural number and of an integer, as \<^verbatim>\<open>str\<close> prints them.\<close>

definition digit_char :: "nat \<Rightarrow> char" where
  "digit_char d = ''0123456789'' ! d"

function str_nat :: "nat \<Rightarrow> string" where
  "str_nat n = (if n < 10 then [digit_char n] else str_nat (n div 10) @ [digit_char (n mod 10)])"
  by pat_completeness auto
termination
  by (relation "measure id") auto

declare str_nat.simps [simp del]

definition str_int :: "int \<Rightarrow> string" where
  "str_int i = (if i < 0 then CHR ''-'' # str_nat (nat (- i)) else str_nat (nat i))"

text \<open>Reading decimal digits back, to state that \<open>str_nat\<close> prints the number.\<close>

definition digit_value :: "char \<Rightarrow> nat" where
  "digit_value c = of_char c - 48"

definition read_nat :: "string \<Rightarrow> nat" where
  "read_nat s = foldl (\<lambda>acc c. 10 * acc + digit_value c) 0 s"

text \<open>An issue identifier is a number (what GitHub returns) or a string (what the host stored).\<close>

datatype issue_id = IntId int | StrId string

fun py_str :: "issue_id \<Rightarrow> string" where
  "py_str (IntId i) = str_int i"
| "py_str (StrId s) = s"

text \<open>
  \<^verbatim>\<open>v[key]\<close> with a string key: a dictionary gives the value or a \<^verbatim>\<open>KeyError\<close>;
  a list or a string wants an integer index, and the other values have no items.
\<close>

fun py_getitem :: "json \<Rightarrow> string \<Rightarrow> exn + json" where
  "py_getitem (JObj kvs) k = (case map_of kvs k of None \<Rightarrow> Inl (KeyError k) | Some v \<Rightarrow> Inr v)"
| "py_getitem v k = Inl TypeError"

text \<open>
  \<^verbatim>\<open>for u in v\<close>: the elements of a list, the keys of a dictionary, the characters of
  a string; the other values are not iterable.
\<close>

fun py_iter :: "json \<Rightarrow> exn + json list" where
  "py_iter (JArr xs) = Inr xs"
| "py_iter (JObj kvs) = Inr (map (\<lambda>kv. JStr (fst kv)) kvs)"
| "py_iter (JStr s) = Inr (map (\<lambda>c. JStr [c]) s)"
| "py_iter v = Inl TypeError"

subsection \<open>GitHubOptionsForm\<close>

definition clean_endpoint :: "(string \<rightharpoonup> string) \<Rightarrow> exn + string" where
  "clean_endpoint cleaned_data =
     (case cleaned_data ''endpoint'' of
        None \<Rightarrow> Inl (KeyError ''endpoint'')
      | Some data \<Rightarrow> Inr (rstrip data ''/''))"

definition clean_github_url :: "(string \<rightharpoonup> string) \<Rightarrow> exn + string" where
  "clean_github_url cleaned_data =
     (case cleaned_data ''github_url'' of
        None \<Rightarrow> Inl (KeyError ''github_url'')
      | Some data \<Rightarrow> Inr (rstrip data ''/''))"

subsection \<open>GitHubPlugin\<close>

definition is_configured :: "host \<Rightarrow> nat \<Rightarrow> bool" where
  "is_configured h p = (case get_option h ''repo'' p of None \<Rightarrow> False | Some r \<Rightarrow> r \<noteq> [])"

text \<open>
  Lines 113 to 116 of \<^verbatim>\<open>make_api_request\<close>, the part the specification calls
  \<^verbatim>\<open>build_request_url\<close>: the two option lookups and the format.
\<close>

definition build_request_url :: "host \<Rightarrow> group \<Rightarrow> string \<Rightarrow> exn + string" where
  "build_request_url h grp github_api =
     (let repo = get_option h ''repo'' (project grp);
          endpoint = py_or (get_option h ''endpoint'' (project grp)) ''https://api.github.com''
      in py_format ''%s/repos/%s/%s'' [endpoint, str_option repo, github_api])"

text \<open>
  An operation returns its result, or the exception it raised, together with the
  outbound HTTP calls it made, in order.
\<close>

definition make_api_request ::
  "host \<Rightarrow> request \<Rightarrow> group \<Rightarrow> string \<Rightarrow> json option \<Rightarrow> (exn + response) \<times> http_call list" where
  "make_api_request h req grp github_api json_data =
     (case get_auth_for_user h (user req) of
        None \<Rightarrow>
          (Inl (ValidationError (JStr ''You have not yet associated GitHub with your account.'')), [])
      | Some a \<Rightarrow>
          (case build_request_url h grp github_api of
             Inl e \<Rightarrow> (Inl e, [])
           | Inr u \<Rightarrow>
               (case tokens a ''access_token'' of
                  None \<Rightarrow> (Inl (KeyError ''access_token''), [])
                | Some tok \<Rightarrow>
                    (case py_format ''token %s'' [tok] of
                       Inl e \<Rightarrow> (Inl e, [])
                     | Inr hv \<Rightarrow>
                         (let req_headers = [(''Authorization'', hv)]
                          in (safe_urlopen h u json_data req_headers,
                              [\<lparr>url = u, json_arg = json_data, headers = req_headers\<rparr>]))))))"

text \<open>
  \<^verbatim>\<open>raise forms.ValidationError(message)\<close> on a value of the response. The
  constructor (Django 1.7 and later) stores a string, a number, a boolean or
  \<^verbatim>\<open>None\<close> as the message. For a list it builds a \<^verbatim>\<open>ValidationError\<close> of every
  element and collects their errors. For a dictionary it builds a \<^verbatim>\<open>ValidationError\<close>
  of every value and reads its \<^verbatim>\<open>error_list\<close>, an attribute that an error built from a
  dictionary does not have: there the constructor itself raises \<^verbatim>\<open>AttributeError\<close>, and
  that is the exception the statement raises.
\<close>

fun is_dict :: "json \<Rightarrow> bool" where
  "is_dict (JObj kvs) = True"
| "is_dict v = False"

fun constructs :: "json \<Rightarrow> bool" where
  "constructs (JObj kvs) = list_all (\<lambda>kv. constructs (snd kv) \<and> \<not> is_dict (snd kv)) kvs"
| "constructs (JArr xs) = list_all constructs xs"
| "constructs v = True"

definition raise_validation_error :: "json \<Rightarrow> exn" where
  "raise_validation_error message =
     (if constructs message then ValidationError message else AttributeError ''error_list'')"

text \<open>
  The handler of \<^verbatim>\<open>create_issue\<close> for an exception of the request or of the parser:
  the class named in the \<^verbatim>\<open>except\<close> clause becomes a \<^verbatim>\<open>ValidationError\<close> with the
  formatted text, any other exception passes through. The translation \<^verbatim>\<open>_\<close> of a
  message is taken as the message itself (no catalogue is active).
\<close>

definition communication_error :: "string \<Rightarrow> exn" where
  "communication_error msg =
     (case py_format ''Error communicating with GitHub: %s'' [msg] of
        Inl e \<Rightarrow> e
      | Inr text \<Rightarrow> ValidationError (JStr text))"

fun except_request :: "exn \<Rightarrow> exn" where
  "except_request (RequestException msg) = communication_error msg"
| "except_request e = e"

fun except_value :: "exn \<Rightarrow> exn" where
  "except_value (ValueError msg) = communication_error msg"
| "except_value e = e"

definition create_issue ::
  "host \<Rightarrow> request \<Rightarrow> group \<Rightarrow> (string \<rightharpoonup> json) \<Rightarrow> (exn + json) \<times> http_call list" where
  "create_issue h req grp form_data =
     (case form_data ''title'' of
        None \<Rightarrow> (Inl (KeyError ''title''), [])
      | Some title \<Rightarrow>
     (case form_data ''description'' of
        None \<Rightarrow> (Inl (KeyError ''description''), [])
      | Some description \<Rightarrow>
     (let json_data = JObj [(''title'', title), (''body'', description),
                            (''assignee'', case form_data ''assignee'' of None \<Rightarrow> JNull | Some a \<Rightarrow> a)]
      in case make_api_request h req grp ''issues'' (Some json_data) of
           (Inl e, calls) \<Rightarrow> (Inl (except_request e), calls)
         | (Inr r, calls) \<Rightarrow>
             (case safe_urlread h r of
                Inl e \<Rightarrow> (Inl (except_request e), calls)
              | Inr body \<Rightarrow>
                  (case loads h body of
                     Inl e \<Rightarrow> (Inl (except_value e), calls)
                   | Inr json_resp \<Rightarrow>
                       (if status_code r > 399 then
                          (case py_getitem json_resp ''message'' of
                             Inl e \<Rightarrow> (Inl e, calls)
                           | Inr m \<Rightarrow> (Inl (raise_validation_error m), calls))
                        else (py_getitem json_resp ''number'', calls)))))))"

text \<open>The generator of \<^verbatim>\<open>get_allowed_assignees\<close>: one pair per element, in order.\<close>

fun login_pairs :: "json list \<Rightarrow> exn + (json \<times> json) list" where
  "login_pairs [] = Inr []"
| "login_pairs (u # us) =
     (case py_getitem u ''login'' of
        Inl e \<Rightarrow> Inl e
      | Inr l \<Rightarrow> (case login_pairs us of Inl e \<Rightarrow> Inl e | Inr ps \<Rightarrow> Inr ((l, l) # ps)))"

text \<open>What the two \<^verbatim>\<open>except\<close> clauses of \<^verbatim>\<open>get_allowed_assignees\<close> catch.\<close>

fun is_request_exception :: "exn \<Rightarrow> bool" where
  "is_request_exception (RequestException msg) = True"
| "is_request_exception e = False"

fun is_value_error :: "exn \<Rightarrow> bool" where
  "is_value_error (ValueError msg) = True"
| "is_value_error e = False"

definition get_allowed_assignees ::
  "host \<Rightarrow> request \<Rightarrow> group \<Rightarrow> (exn + (json \<times> json) list) \<times> http_call list" where
  "get_allowed_assignees h req grp =
     (case make_api_request h req grp ''assignees'' None of
        (Inl e, calls) \<Rightarrow> (if is_request_exception e then Inr [] else Inl e, calls)
      | (Inr r, calls) \<Rightarrow>
          (case safe_urlread h r of
             Inl e \<Rightarrow> (if is_request_exception e then Inr [] else Inl e, calls)
           | Inr body \<Rightarrow>
               (case loads h body of
                  Inl e \<Rightarrow> (if is_value_error e then Inr [] else Inl e, calls)
                | Inr json_resp \<Rightarrow>
                    (if status_code r > 399 then (Inr [], calls)
                     else
                       (case py_iter json_resp of
                          Inl e \<Rightarrow> (Inl e, calls)
                        | Inr us \<Rightarrow>
                            (case login_pairs us of
                               Inl e \<Rightarrow> (Inl e, calls)
                             | Inr users \<Rightarrow>
                                 (Inr ((JStr [], JStr ''Unassigned'') # users), calls)))))))"

definition get_issue_label :: "group \<Rightarrow> issue_id \<Rightarrow> exn + string" where
  "get_issue_label grp iid = py_format ''GH-%s'' [py_str iid]"

definition get_issue_url :: "host \<Rightarrow> group \<Rightarrow> issue_id \<Rightarrow> exn + string" where
  "get_issue_url h grp iid =
     (let repo = get_option h ''repo'' (project grp);
          github_url = py_or (get_option h ''github_url'' (project grp)) ''https://github.com''
      in py_format ''%s/%s/issues/%s'' [github_url, str_option repo, py_str iid])"

subsection \<open>The error kinds of the specification\<close>

text \<open>
  The specification names three kinds of error. In the plugin each of them is a
  \<^verbatim>\<open>forms.ValidationError\<close>, told apart by its message.
\<close>

definition NotAuthenticated :: exn where
  "NotAuthenticated =
     ValidationError (JStr ''You have not yet associated GitHub with your account.'')"

definition CommunicationError :: "string \<Rightarrow> exn" where
  "CommunicationError msg = ValidationError (JStr (''Error communicating with GitHub: '' @ msg))"

definition RemoteRejected :: "json \<Rightarrow> exn" where
  "RemoteRejected m = ValidationError m"

subsection \<open>Counting double slashes\<close>

text \<open>The number of positions of a string where a slash is followed by a slash.\<close>

fun count_ds :: "string \<Rightarrow> nat" where
  "count_ds (a # b # cs) =
     (if a = CHR ''/'' \<and> b = CHR ''/'' then 1 else 0) + count_ds (b # cs)"
| "count_ds cs = 0"

subsection \<open>A host for examples\<close>

text \<open>
  A host with the same options for every project, the same credential for every user,
  and fixed answers of the HTTP helpers and the parser.
\<close>

definition stub_host ::
  "(string \<rightharpoonup> string) \<Rightarrow> auth option \<Rightarrow> (exn + response) \<Rightarrow> (exn + string) \<Rightarrow> (exn + json) \<Rightarrow> host" where
  "stub_host opts a opened body parsed =
     \<lparr>get_option = (\<lambda>key p. opts key),
      get_auth_for_user = (\<lambda>u. a),
      safe_urlopen = (\<lambda>u j hs. opened),
      safe_urlread = (\<lambda>r. body),
      loads = (\<lambda>b. parsed)\<rparr>"

definition example_auth :: auth where
  "example_auth = \<lparr>tokens = [''access_token'' \<mapsto> ''s3cr3t'']\<rparr>"

definition example_options :: "string \<rightharpoonup> string" where
  "example_options = [''repo'' \<mapsto> ''o/r'']"

definition example_form :: "string \<rightharpoonup> json" where
  "example_form = [''title'' \<mapsto> JStr ''Crash'', ''description'' \<mapsto> JStr ''Traceback'']"

definition example_payload :: json where
  "example_payload =
     JObj [(''title'', JStr ''Crash''), (''body'', JStr ''Traceback''), (''assignee'', JNull)]"

definition example_call :: "string \<Rightarrow> json option \<Rightarrow> http_call" where
  "example_call api j =
     \<lparr>url = ''https://api.github.com/repos/o/r/'' @ api, json_arg = j,
      headers = [(''Authorization'', ''token s3cr3t'')]\<rparr>"

section \<open>Properties\<close>

subsection \<open>Formatting and the request\<close>

lemma py_format_request_url:
  "py_format ''%s/repos/%s/%s'' [a, b, c] = Inr (a @ ''/repos/'' @ b @ ''/'' @ c)"
  by simp

lemma py_format_token: "py_format ''token %s'' [t] = Inr (''token '' @ t)"
  by simp

lemma py_format_label: "py_format ''GH-%s'' [t] = Inr (''GH-'' @ t)"
  by simp

lemma py_format_issue_url:
  "py_format ''%s/%s/issues/%s'' [a, b, c] = Inr (a @ ''/'' @ b @ ''/issues/'' @ c)"
  by simp

text \<open>\<open>str_nat\<close> prints the decimal digits of its argument.\<close>

lemma digit_value_digit_char: "d < 10 \<Longrightarrow> digit_value (digit_char d) = d"
proof -
  assume "d < 10"
  then have "d \<in> {0, 1, 2, 3, 4, 5, 6, 7, 8, 9}" by auto
  then show ?thesis
    by (auto simp: digit_value_def digit_char_def)
qed

lemma read_nat_snoc: "read_nat (s @ [c]) = 10 * read_nat s + digit_value c"
  by (simp add: read_nat_def)

lemma read_nat_str_nat: "read_nat (str_nat n) = n"
proof (induction n rule: str_nat.induct)
  case (1 n)
  show ?case
  proof (cases "n < 10")
    case True
    then show ?thesis
      by (simp add: str_nat.simps [of n] read_nat_def digit_value_digit_char)
  next
    case False
    with 1 have "read_nat (str_nat (n div 10)) = n div 10" by simp
    with False show ?thesis
      by (simp add: str_nat.simps [of n] read_nat_snoc digit_value_digit_char)
  qed
qed

lemma communication_error_eq: "communication_error msg = CommunicationError msg"
  by (simp add: communication_error_def CommunicationError_def)

lemma build_request_url_eq:
  "build_request_url h grp api =
     Inr (py_or (get_option h ''endpoint'' (project grp)) ''https://api.github.com''
          @ ''/repos/'' @ str_option (get_option h ''repo'' (project grp)) @ ''/'' @ api)"
  unfolding build_request_url_def Let_def by (rule py_format_request_url)

lemma make_api_request_no_auth:
  "get_auth_for_user h (user req) = None \<Longrightarrow>
   make_api_request h req grp api j = (Inl NotAuthenticated, [])"
  by (simp add: make_api_request_def NotAuthenticated_def)

lemma make_api_request_auth:
  assumes "get_auth_for_user h (user req) = Some a"
    and "tokens a ''access_token'' = Some tok"
    and "build_request_url h grp api = Inr u"
  shows "make_api_request h req grp api j =
     (safe_urlopen h u j [(''Authorization'', ''token '' @ tok)],
      [\<lparr>url = u, json_arg = j, headers = [(''Authorization'', ''token '' @ tok)]\<rparr>])"
  using assms unfolding make_api_request_def Let_def
  by (simp only: option.case sum.case py_format_token)

subsection \<open>Creating an issue\<close>

text \<open>
  C1, as amended. When the user has a credential with an access token, the form data
  hold a title and a description, the request and the read succeed, the body parses to
  an object with a \<^verbatim>\<open>number\<close> key and the status is at most 399, \<^verbatim>\<open>create_issue\<close>
  returns the value of that key, after exactly one HTTP call. With status 201 and the
  body \<^verbatim>\<open>{"number": 42}\<close> it returns 42. A body that parses to JSON but has no such
  key returns nothing: the empty object gives a \<^verbatim>\<open>KeyError\<close> and the empty list a
  \<^verbatim>\<open>TypeError\<close>, the counterexample.
\<close>

theorem create_issue_returns_number:
  assumes "get_auth_for_user h (user req) = Some a"
    and "tokens a ''access_token'' = Some tok"
    and "form_data ''title'' = Some title"
    and "form_data ''description'' = Some description"
    and "build_request_url h grp ''issues'' = Inr u"
    and "payload = JObj [(''title'', title), (''body'', description),
            (''assignee'', case form_data ''assignee'' of None \<Rightarrow> JNull | Some x \<Rightarrow> x)]"
    and "safe_urlopen h u (Some payload) [(''Authorization'', ''token '' @ tok)] = Inr r"
    and "safe_urlread h r = Inr body"
    and "loads h body = Inr (JObj kvs)"
    and "status_code r \<le> 399"
    and "map_of kvs ''number'' = Some n"
  shows "create_issue h req grp form_data =
     (Inr n, [\<lparr>url = u, json_arg = Some payload,
               headers = [(''Authorization'', ''token '' @ tok)]\<rparr>])"
proof -
  have "make_api_request h req grp ''issues'' (Some payload) =
      (Inr r, [\<lparr>url = u, json_arg = Some payload,
                headers = [(''Authorization'', ''token '' @ tok)]\<rparr>])"
    using assms(1,2,5,7) by (simp add: make_api_request_auth)
  then show ?thesis
    using assms(3,4,6,8,9,10,11) by (simp add: create_issue_def)
qed

theorem create_issue_returns_number_witness:
  "create_issue
     (stub_host example_options (Some example_auth)
        (Inr \<lparr>status_code = 201, raw = ''r1''\<rparr>) (Inr ''{\"number\": 42}'')
        (Inr (JObj [(''number'', JNum 42)])))
     \<lparr>user = 7\<rparr> \<lparr>project = 1\<rparr> example_form =
   (Inr (JNum 42), [example_call ''issues'' (Some example_payload)])"
  using create_issue_returns_number
    [of "stub_host example_options (Some example_auth)
          (Inr \<lparr>status_code = 201, raw = ''r1''\<rparr>) (Inr ''{\"number\": 42}'')
          (Inr (JObj [(''number'', JNum 42)]))"
        "\<lparr>user = 7\<rparr>" example_auth "''s3cr3t''" example_form "JStr ''Crash''"
        "JStr ''Traceback''" "\<lparr>project = 1\<rparr>" "''https://api.github.com/repos/o/r/issues''"
        example_payload "\<lparr>status_code = 201, raw = ''r1''\<rparr>" "''{\"number\": 42}''"
        "[(''number'', JNum 42)]" "JNum 42"]
  by (simp add: stub_host_def example_auth_def example_options_def example_form_def
      example_payload_def example_call_def build_request_url_eq py_or_def str_option_def)

theorem create_issue_no_number_counterexample:
  "create_issue
     (stub_host example_options (Some example_auth)
        (Inr \<lparr>status_code = 200, raw = ''r1''\<rparr>) (Inr ''{}'') (Inr (JObj [])))
     \<lparr>user = 7\<rparr> \<lparr>project = 1\<rparr> example_form =
     (Inl (KeyError ''number''), [example_call ''issues'' (Some example_payload)])
   \<and> create_issue
     (stub_host example_options (Some example_auth)
        (Inr \<lparr>status_code = 200, raw = ''r1''\<rparr>) (Inr ''[]'') (Inr (JArr [])))
     \<lparr>user = 7\<rparr> \<lparr>project = 1\<rparr> example_form =
     (Inl TypeError, [example_call ''issues'' (Some example_payload)])"
  by (simp add: create_issue_def make_api_request_def stub_host_def example_auth_def
      example_options_def example_form_def example_payload_def example_call_def
      build_request_url_eq py_or_def str_option_def)

text \<open>
  What \<^verbatim>\<open>create_issue\<close> does once the payload is built and the request is sent: the
  rest of the function, by the answers of the host.
\<close>

lemma create_issue_after_request:
  assumes "get_auth_for_user h (user req) = Some a"
    and "tokens a ''access_token'' = Some tok"
    and "form_data ''title'' = Some title"
    and "form_data ''description'' = Some description"
    and "build_request_url h grp ''issues'' = Inr u"
    and "payload = JObj [(''title'', title), (''body'', description),
            (''assignee'', case form_data ''assignee'' of None \<Rightarrow> JNull | Some x \<Rightarrow> x)]"
    and "hs = [(''Authorization'', ''token '' @ tok)]"
    and "calls = [\<lparr>url = u, json_arg = Some payload, headers = hs\<rparr>]"
  shows "create_issue h req grp form_data =
     (case safe_urlopen h u (Some payload) hs of
        Inl e \<Rightarrow> (Inl (except_request e), calls)
      | Inr r \<Rightarrow>
          (case safe_urlread h r of
             Inl e \<Rightarrow> (Inl (except_request e), calls)
           | Inr body \<Rightarrow>
               (case loads h body of
                  Inl e \<Rightarrow> (Inl (except_value e), calls)
                | Inr json_resp \<Rightarrow>
                    (if status_code r > 399 then
                       (case py_getitem json_resp ''message'' of
                          Inl e \<Rightarrow> (Inl e, calls)
                        | Inr m \<Rightarrow> (Inl (raise_validation_error m), calls))
                     else (py_getitem json_resp ''number'', calls)))))"
proof -
  have "make_api_request h req grp ''issues'' (Some payload) =
      (safe_urlopen h u (Some payload) hs, calls)"
    using assms(1,2,5,7,8) by (simp add: make_api_request_auth)
  then show ?thesis
    using assms(3,4,6) by (simp add: create_issue_def split: sum.splits)
qed

lemma except_request_NotAuthenticated: "except_request NotAuthenticated = NotAuthenticated"
  by (simp add: NotAuthenticated_def)

text \<open>
  C2, as amended. When the credential lookup returns nothing and the form data hold
  a title and a description, \<^verbatim>\<open>create_issue\<close> fails with the NotAuthenticated
  validation error, whatever the project options and the answers of the network, and
  makes no HTTP call. The payload is built from the form data before the lookup, so
  form data without a title fail with a \<^verbatim>\<open>KeyError\<close> first: the counterexample.
\<close>

theorem create_issue_not_authenticated:
  assumes "get_auth_for_user h (user req) = None"
    and "form_data ''title'' = Some title"
    and "form_data ''description'' = Some description"
  shows "create_issue h req grp form_data = (Inl NotAuthenticated, [])"
  using assms by (simp add: create_issue_def make_api_request_no_auth except_request_NotAuthenticated)

theorem create_issue_not_authenticated_witness:
  "create_issue
     (stub_host example_options None (Inl (RequestException ''timed out''))
        (Inl (RequestException ''reset'')) (Inl (ValueError ''no JSON'')))
     \<lparr>user = 7\<rparr> \<lparr>project = 1\<rparr> example_form = (Inl NotAuthenticated, [])"
  using create_issue_not_authenticated
    [of "stub_host example_options None (Inl (RequestException ''timed out''))
          (Inl (RequestException ''reset'')) (Inl (ValueError ''no JSON''))"
        "\<lparr>user = 7\<rparr>" example_form "JStr ''Crash''" "JStr ''Traceback''" "\<lparr>project = 1\<rparr>"]
  by (simp add: stub_host_def example_form_def)

theorem create_issue_no_title_counterexample:
  "get_auth_for_user
     (stub_host example_options None (Inl (RequestException ''timed out''))
        (Inl (RequestException ''reset'')) (Inl (ValueError ''no JSON''))) (user \<lparr>user = 7\<rparr>) = None
   \<and> create_issue
     (stub_host example_options None (Inl (RequestException ''timed out''))
        (Inl (RequestException ''reset'')) (Inl (ValueError ''no JSON'')))
     \<lparr>user = 7\<rparr> \<lparr>project = 1\<rparr> [''description'' \<mapsto> JStr ''Traceback''] = (Inl (KeyError ''title''), [])
   \<and> KeyError ''title'' \<noteq> NotAuthenticated"
  by (simp add: stub_host_def create_issue_def NotAuthenticated_def)

text \<open>
  C3, as amended. When the request and the read succeed, the body parses to an object
  with a \<^verbatim>\<open>message\<close> key, the value of that key is one the \<^verbatim>\<open>ValidationError\<close>
  constructor accepts (a string, a number, a boolean or \<^verbatim>\<open>None\<close>, or a list or
  dictionary in which no dictionary has a dictionary as a value) and the status is
  above 399, \<^verbatim>\<open>create_issue\<close> fails with RemoteRejected carrying exactly that value.
  With status 422 and the body \<^verbatim>\<open>{"message": "Validation Failed"}\<close> the error carries
  \<^verbatim>\<open>Validation Failed\<close>. A message that is a dictionary inside a dictionary makes the
  constructor raise \<^verbatim>\<open>AttributeError\<close>, and a body that is a list has no
  \<^verbatim>\<open>message\<close> to read: the counterexample.
\<close>

theorem create_issue_remote_rejected:
  assumes "get_auth_for_user h (user req) = Some a"
    and "tokens a ''access_token'' = Some tok"
    and "form_data ''title'' = Some title"
    and "form_data ''description'' = Some description"
    and "build_request_url h grp ''issues'' = Inr u"
    and "payload = JObj [(''title'', title), (''body'', description),
            (''assignee'', case form_data ''assignee'' of None \<Rightarrow> JNull | Some x \<Rightarrow> x)]"
    and "safe_urlopen h u (Some payload) [(''Authorization'', ''token '' @ tok)] = Inr r"
    and "safe_urlread h r = Inr body"
    and "loads h body = Inr (JObj kvs)"
    and "status_code r > 399"
    and "map_of kvs ''message'' = Some m"
    and "constructs m"
  shows "create_issue h req grp form_data =
     (Inl (RemoteRejected m), [\<lparr>url = u, json_arg = Some payload,
               headers = [(''Authorization'', ''token '' @ tok)]\<rparr>])"
  using assms(7-12)
  by (simp add: create_issue_after_request [OF assms(1-6) refl refl] RemoteRejected_def
      raise_validation_error_def)

theorem create_issue_remote_rejected_witness:
  "create_issue
     (stub_host example_options (Some example_auth)
        (Inr \<lparr>status_code = 422, raw = ''r1''\<rparr>) (Inr ''{message: Validation Failed}'')
        (Inr (JObj [(''message'', JStr ''Validation Failed'')])))
     \<lparr>user = 7\<rparr> \<lparr>project = 1\<rparr> example_form =
   (Inl (RemoteRejected (JStr ''Validation Failed'')), [example_call ''issues'' (Some example_payload)])"
  using create_issue_remote_rejected
    [of "stub_host example_options (Some example_auth)
          (Inr \<lparr>status_code = 422, raw = ''r1''\<rparr>) (Inr ''{message: Validation Failed}'')
          (Inr (JObj [(''message'', JStr ''Validation Failed'')]))"
        "\<lparr>user = 7\<rparr>" example_auth "''s3cr3t''" example_form "JStr ''Crash''"
        "JStr ''Traceback''" "\<lparr>project = 1\<rparr>" "''https://api.github.com/repos/o/r/issues''"
        example_payload "\<lparr>status_code = 422, raw = ''r1''\<rparr>" "''{message: Validation Failed}''"
        "[(''message'', JStr ''Validation Failed'')]" "JStr ''Validation Failed''"]
  by (simp add: stub_host_def example_auth_def example_options_def example_form_def
      example_payload_def example_call_def build_request_url_eq py_or_def str_option_def)

theorem create_issue_remote_rejected_counterexample:
  "create_issue
     (stub_host example_options (Some example_auth)
        (Inr \<lparr>status_code = 422, raw = ''r1''\<rparr>) (Inr ''{message: {a: {b: c}}}'')
        (Inr (JObj [(''message'', JObj [(''a'', JObj [(''b'', JStr ''c'')])])])))
     \<lparr>user = 7\<rparr> \<lparr>project = 1\<rparr> example_form =
     (Inl (AttributeError ''error_list''), [example_call ''issues'' (Some example_payload)])
   \<and> AttributeError ''error_list''
       \<noteq> RemoteRejected (JObj [(''a'', JObj [(''b'', JStr ''c'')])])
   \<and> create_issue
     (stub_host example_options (Some example_auth)
        (Inr \<lparr>status_code = 500, raw = ''r1''\<rparr>) (Inr ''[]'') (Inr (JArr [])))
     \<lparr>user = 7\<rparr> \<lparr>project = 1\<rparr> example_form =
     (Inl TypeError, [example_call ''issues'' (Some example_payload)])"
  by (simp add: create_issue_def make_api_request_def stub_host_def example_auth_def
      example_options_def example_form_def example_payload_def example_call_def
      build_request_url_eq py_or_def str_option_def raise_validation_error_def
      RemoteRejected_def)

text \<open>
  C10. When the request and the read succeed, the body parses to an object without a
  \<^verbatim>\<open>message\<close> key and the status is above 399, \<^verbatim>\<open>create_issue\<close> raises the
  \<^verbatim>\<open>KeyError\<close> of the lookup, which is none of NotAuthenticated, CommunicationError
  and RemoteRejected.
\<close>

theorem create_issue_missing_message:
  assumes "get_auth_for_user h (user req) = Some a"
    and "tokens a ''access_token'' = Some tok"
    and "form_data ''title'' = Some title"
    and "form_data ''description'' = Some description"
    and "build_request_url h grp ''issues'' = Inr u"
    and "payload = JObj [(''title'', title), (''body'', description),
            (''assignee'', case form_data ''assignee'' of None \<Rightarrow> JNull | Some x \<Rightarrow> x)]"
    and "safe_urlopen h u (Some payload) [(''Authorization'', ''token '' @ tok)] = Inr r"
    and "safe_urlread h r = Inr body"
    and "loads h body = Inr (JObj kvs)"
    and "status_code r > 399"
    and "map_of kvs ''message'' = None"
  shows "create_issue h req grp form_data =
     (Inl (KeyError ''message''), [\<lparr>url = u, json_arg = Some payload,
               headers = [(''Authorization'', ''token '' @ tok)]\<rparr>])
     \<and> KeyError ''message'' \<noteq> NotAuthenticated
     \<and> KeyError ''message'' \<noteq> CommunicationError msg
     \<and> KeyError ''message'' \<noteq> RemoteRejected v"
  using assms(7-11)
  by (simp add: create_issue_after_request [OF assms(1-6) refl refl] RemoteRejected_def
      NotAuthenticated_def CommunicationError_def)

theorem create_issue_missing_message_witness:
  "create_issue
     (stub_host example_options (Some example_auth)
        (Inr \<lparr>status_code = 500, raw = ''r1''\<rparr>) (Inr ''{error: boom}'')
        (Inr (JObj [(''error'', JStr ''boom'')])))
     \<lparr>user = 7\<rparr> \<lparr>project = 1\<rparr> example_form =
   (Inl (KeyError ''message''), [example_call ''issues'' (Some example_payload)])"
  using create_issue_missing_message
    [of "stub_host example_options (Some example_auth)
          (Inr \<lparr>status_code = 500, raw = ''r1''\<rparr>) (Inr ''{error: boom}'')
          (Inr (JObj [(''error'', JStr ''boom'')]))"
        "\<lparr>user = 7\<rparr>" example_auth "''s3cr3t''" example_form "JStr ''Crash''"
        "JStr ''Traceback''" "\<lparr>project = 1\<rparr>" "''https://api.github.com/repos/o/r/issues''"
        example_payload "\<lparr>status_code = 500, raw = ''r1''\<rparr>" "''{error: boom}''"
        "[(''error'', JStr ''boom'')]"]
  by (simp add: stub_host_def example_auth_def example_options_def example_form_def
      example_payload_def example_call_def build_request_url_eq py_or_def str_option_def)

text \<open>
  C4. With a credential, a \<^verbatim>\<open>RequestException\<close> of the request or of the read makes
  \<^verbatim>\<open>create_issue\<close> fail with a CommunicationError carrying the message of that
  exception, and a \<^verbatim>\<open>ValueError\<close> of the parser makes it fail with a
  CommunicationError carrying the message of the parse error. Either way the result is
  an error, not an issue identifier.
\<close>

theorem create_issue_communication_error:
  assumes "get_auth_for_user h (user req) = Some a"
    and "tokens a ''access_token'' = Some tok"
    and "form_data ''title'' = Some title"
    and "form_data ''description'' = Some description"
    and "build_request_url h grp ''issues'' = Inr u"
    and "payload = JObj [(''title'', title), (''body'', description),
            (''assignee'', case form_data ''assignee'' of None \<Rightarrow> JNull | Some x \<Rightarrow> x)]"
    and "hs = [(''Authorization'', ''token '' @ tok)]"
    and "calls = [\<lparr>url = u, json_arg = Some payload, headers = hs\<rparr>]"
  shows "(safe_urlopen h u (Some payload) hs = Inl (RequestException msg) \<longrightarrow>
            create_issue h req grp form_data = (Inl (CommunicationError msg), calls))
       \<and> (safe_urlopen h u (Some payload) hs = Inr r
            \<and> safe_urlread h r = Inl (RequestException msg) \<longrightarrow>
            create_issue h req grp form_data = (Inl (CommunicationError msg), calls))
       \<and> (safe_urlopen h u (Some payload) hs = Inr r \<and> safe_urlread h r = Inr body
            \<and> loads h body = Inl (ValueError msg) \<longrightarrow>
            create_issue h req grp form_data = (Inl (CommunicationError msg), calls))"
  by (simp add: create_issue_after_request [OF assms] communication_error_eq)

theorem create_issue_communication_error_witness:
  "create_issue
     (stub_host example_options (Some example_auth) (Inl (RequestException ''timed out''))
        (Inr ''{}'') (Inr (JObj [])))
     \<lparr>user = 7\<rparr> \<lparr>project = 1\<rparr> example_form =
     (Inl (CommunicationError ''timed out''), [example_call ''issues'' (Some example_payload)])
   \<and> create_issue
     (stub_host example_options (Some example_auth) (Inr \<lparr>status_code = 200, raw = ''r1''\<rparr>)
        (Inl (RequestException ''connection reset'')) (Inr (JObj [])))
     \<lparr>user = 7\<rparr> \<lparr>project = 1\<rparr> example_form =
     (Inl (CommunicationError ''connection reset''), [example_call ''issues'' (Some example_payload)])
   \<and> create_issue
     (stub_host example_options (Some example_auth) (Inr \<lparr>status_code = 200, raw = ''r1''\<rparr>)
        (Inr ''<html>'') (Inl (ValueError ''No JSON object could be decoded'')))
     \<lparr>user = 7\<rparr> \<lparr>project = 1\<rparr> example_form =
     (Inl (CommunicationError ''No JSON object could be decoded''),
      [example_call ''issues'' (Some example_payload)])"
  using
    create_issue_communication_error
    [where h = "stub_host example_options (Some example_auth)
          (Inl (RequestException ''timed out'')) (Inr ''{}'') (Inr (JObj []))"
       and req = "\<lparr>user = 7\<rparr>" and a = example_auth and tok = "''s3cr3t''"
       and form_data = example_form and title = "JStr ''Crash''"
       and description = "JStr ''Traceback''" and grp = "\<lparr>project = 1\<rparr>"
       and u = "''https://api.github.com/repos/o/r/issues''" and payload = example_payload
       and hs = "[(''Authorization'', ''token s3cr3t'')]"
       and calls = "[example_call ''issues'' (Some example_payload)]"
       and msg = "''timed out''"]
    create_issue_communication_error
    [where h = "stub_host example_options (Some example_auth)
          (Inr \<lparr>status_code = 200, raw = ''r1''\<rparr>)
          (Inl (RequestException ''connection reset'')) (Inr (JObj []))"
       and req = "\<lparr>user = 7\<rparr>" and a = example_auth and tok = "''s3cr3t''"
       and form_data = example_form and title = "JStr ''Crash''"
       and description = "JStr ''Traceback''" and grp = "\<lparr>project = 1\<rparr>"
       and u = "''https://api.github.com/repos/o/r/issues''" and payload = example_payload
       and hs = "[(''Authorization'', ''token s3cr3t'')]"
       and calls = "[example_call ''issues'' (Some example_payload)]"
       and msg = "''connection reset''" and r = "\<lparr>status_code = 200, raw = ''r1''\<rparr>"]
    create_issue_communication_error
    [where h = "stub_host example_options (Some example_auth)
          (Inr \<lparr>status_code = 200, raw = ''r1''\<rparr>)
          (Inr ''<html>'') (Inl (ValueError ''No JSON object could be decoded''))"
       and req = "\<lparr>user = 7\<rparr>" and a = example_auth and tok = "''s3cr3t''"
       and form_data = example_form and title = "JStr ''Crash''"
       and description = "JStr ''Traceback''" and grp = "\<lparr>project = 1\<rparr>"
       and u = "''https://api.github.com/repos/o/r/issues''" and payload = example_payload
       and hs = "[(''Authorization'', ''token s3cr3t'')]"
       and calls = "[example_call ''issues'' (Some example_payload)]"
       and msg = "''No JSON object could be decoded''"
       and r = "\<lparr>status_code = 200, raw = ''r1''\<rparr>" and body = "''<html>''"]
  by (simp add: stub_host_def example_auth_def example_options_def example_form_def
      example_payload_def example_call_def build_request_url_eq py_or_def str_option_def)

subsection \<open>Listing the assignees\<close>

text \<open>
  What \<^verbatim>\<open>get_allowed_assignees\<close> does once the request is sent, by the answers of the
  host.
\<close>

lemma get_allowed_assignees_after_request:
  assumes "get_auth_for_user h (user req) = Some a"
    and "tokens a ''access_token'' = Some tok"
    and "build_request_url h grp ''assignees'' = Inr u"
    and "hs = [(''Authorization'', ''token '' @ tok)]"
    and "calls = [\<lparr>url = u, json_arg = None, headers = hs\<rparr>]"
  shows "get_allowed_assignees h req grp =
     (case safe_urlopen h u None hs of
        Inl e \<Rightarrow> (if is_request_exception e then Inr [] else Inl e, calls)
      | Inr r \<Rightarrow>
          (case safe_urlread h r of
             Inl e \<Rightarrow> (if is_request_exception e then Inr [] else Inl e, calls)
           | Inr body \<Rightarrow>
               (case loads h body of
                  Inl e \<Rightarrow> (if is_value_error e then Inr [] else Inl e, calls)
                | Inr json_resp \<Rightarrow>
                    (if status_code r > 399 then (Inr [], calls)
                     else
                       (case py_iter json_resp of
                          Inl e \<Rightarrow> (Inl e, calls)
                        | Inr us \<Rightarrow>
                            (case login_pairs us of
                               Inl e \<Rightarrow> (Inl e, calls)
                             | Inr users \<Rightarrow>
                                 (Inr ((JStr [], JStr ''Unassigned'') # users), calls)))))))"
proof -
  have "make_api_request h req grp ''assignees'' None = (safe_urlopen h u None hs, calls)"
    using assms by (simp add: make_api_request_auth)
  then show ?thesis
    by (simp add: get_allowed_assignees_def split: sum.splits)
qed

lemma login_pairs_objects:
  "list_all2 (\<lambda>v l. \<exists>kvs. v = JObj kvs \<and> map_of kvs ''login'' = Some l) us ls \<Longrightarrow>
   login_pairs us = Inr (map (\<lambda>l. (l, l)) ls)"
  by (induction us ls rule: list_all2_induct) auto

text \<open>
  C5, as amended. \<^verbatim>\<open>get_allowed_assignees\<close> absorbs three failures into the empty
  sequence, without the Unassigned entry: a \<^verbatim>\<open>RequestException\<close> of the request or of
  the read, a \<^verbatim>\<open>ValueError\<close> of the parser, and a status above 399. A missing
  credential is not absorbed: the NotAuthenticated validation error that
  \<^verbatim>\<open>make_api_request\<close> raises is not a \<^verbatim>\<open>RequestException\<close> and reaches the caller,
  before any HTTP call.
\<close>

theorem get_allowed_assignees_absorbed:
  "(get_auth_for_user h (user req) = None \<longrightarrow>
      get_allowed_assignees h req grp = (Inl NotAuthenticated, []))
   \<and> (get_auth_for_user h (user req) = Some a \<and> tokens a ''access_token'' = Some tok
       \<and> build_request_url h grp ''assignees'' = Inr u
       \<and> hs = [(''Authorization'', ''token '' @ tok)]
       \<and> calls = [\<lparr>url = u, json_arg = None, headers = hs\<rparr>] \<longrightarrow>
      (safe_urlopen h u None hs = Inl (RequestException msg) \<longrightarrow>
         get_allowed_assignees h req grp = (Inr [], calls))
    \<and> (safe_urlopen h u None hs = Inr r \<and> safe_urlread h r = Inl (RequestException msg) \<longrightarrow>
         get_allowed_assignees h req grp = (Inr [], calls))
    \<and> (safe_urlopen h u None hs = Inr r \<and> safe_urlread h r = Inr body
        \<and> loads h body = Inl (ValueError msg) \<longrightarrow>
         get_allowed_assignees h req grp = (Inr [], calls))
    \<and> (safe_urlopen h u None hs = Inr r \<and> safe_urlread h r = Inr body
        \<and> loads h body = Inr json_resp \<and> status_code r > 399 \<longrightarrow>
         get_allowed_assignees h req grp = (Inr [], calls)))"
proof (intro conjI impI)
  assume "get_auth_for_user h (user req) = None"
  then show "get_allowed_assignees h req grp = (Inl NotAuthenticated, [])"
    by (simp add: get_allowed_assignees_def make_api_request_no_auth NotAuthenticated_def)
next
  assume ctx: "get_auth_for_user h (user req) = Some a \<and> tokens a ''access_token'' = Some tok
       \<and> build_request_url h grp ''assignees'' = Inr u
       \<and> hs = [(''Authorization'', ''token '' @ tok)]
       \<and> calls = [\<lparr>url = u, json_arg = None, headers = hs\<rparr>]"
  note eq = get_allowed_assignees_after_request [of h req a tok grp u hs calls]
  {
    assume "safe_urlopen h u None hs = Inl (RequestException msg)"
    with ctx show "get_allowed_assignees h req grp = (Inr [], calls)"
      by (simp add: eq)
  next
    assume "safe_urlopen h u None hs = Inr r \<and> safe_urlread h r = Inl (RequestException msg)"
    with ctx show "get_allowed_assignees h req grp = (Inr [], calls)"
      by (simp add: eq)
  next
    assume "safe_urlopen h u None hs = Inr r \<and> safe_urlread h r = Inr body
        \<and> loads h body = Inl (ValueError msg)"
    with ctx show "get_allowed_assignees h req grp = (Inr [], calls)"
      by (simp add: eq)
  next
    assume "safe_urlopen h u None hs = Inr r \<and> safe_urlread h r = Inr body
        \<and> loads h body = Inr json_resp \<and> status_code r > 399"
    with ctx show "get_allowed_assignees h req grp = (Inr [], calls)"
      by (simp add: eq)
  }
qed

theorem get_allowed_assignees_absorbed_witness:
  "get_allowed_assignees
     (stub_host example_options None (Inr \<lparr>status_code = 200, raw = ''r1''\<rparr>)
        (Inr ''[]'') (Inr (JArr [])))
     \<lparr>user = 7\<rparr> \<lparr>project = 1\<rparr> = (Inl NotAuthenticated, [])
   \<and> get_allowed_assignees
     (stub_host example_options (Some example_auth)
        (Inl (RequestException ''timed out'')) (Inr ''[]'') (Inr (JArr [])))
     \<lparr>user = 7\<rparr> \<lparr>project = 1\<rparr> = (Inr [], [example_call ''assignees'' None])
   \<and> get_allowed_assignees
     (stub_host example_options (Some example_auth)
        (Inr \<lparr>status_code = 200, raw = ''r1''\<rparr>)
        (Inl (RequestException ''connection reset'')) (Inr (JArr [])))
     \<lparr>user = 7\<rparr> \<lparr>project = 1\<rparr> = (Inr [], [example_call ''assignees'' None])
   \<and> get_allowed_assignees
     (stub_host example_options (Some example_auth)
        (Inr \<lparr>status_code = 200, raw = ''r1''\<rparr>)
        (Inr ''<html>'') (Inl (ValueError ''No JSON object could be decoded'')))
     \<lparr>user = 7\<rparr> \<lparr>project = 1\<rparr> = (Inr [], [example_call ''assignees'' None])
   \<and> get_allowed_assignees
     (stub_host example_options (Some example_auth)
        (Inr \<lparr>status_code = 404, raw = ''r1''\<rparr>)
        (Inr ''{}'') (Inr (JObj [(''message'', JStr ''Not Found'')])))
     \<lparr>user = 7\<rparr> \<lparr>project = 1\<rparr> = (Inr [], [example_call ''assignees'' None])"
  using
    get_allowed_assignees_absorbed
    [where h = "stub_host example_options None (Inr \<lparr>status_code = 200, raw = ''r1''\<rparr>)
          (Inr ''[]'') (Inr (JArr []))"
       and req = "\<lparr>user = 7\<rparr>" and grp = "\<lparr>project = 1\<rparr>"
       and a = example_auth and tok = "''s3cr3t''"
       and u = "''https://api.github.com/repos/o/r/assignees''"
       and hs = "[(''Authorization'', ''token s3cr3t'')]"
       and calls = "[example_call ''assignees'' None]"
       and msg = "''x''"]
    get_allowed_assignees_absorbed
    [where h = "stub_host example_options (Some example_auth)
          (Inl (RequestException ''timed out'')) (Inr ''[]'') (Inr (JArr []))"
       and req = "\<lparr>user = 7\<rparr>" and grp = "\<lparr>project = 1\<rparr>"
       and a = example_auth and tok = "''s3cr3t''"
       and u = "''https://api.github.com/repos/o/r/assignees''"
       and hs = "[(''Authorization'', ''token s3cr3t'')]"
       and calls = "[example_call ''assignees'' None]"
       and msg = "''timed out''"]
    get_allowed_assignees_absorbed
    [where h = "stub_host example_options (Some example_auth)
          (Inr \<lparr>status_code = 200, raw = ''r1''\<rparr>)
          (Inl (RequestException ''connection reset'')) (Inr (JArr []))"
       and req = "\<lparr>user = 7\<rparr>" and grp = "\<lparr>project = 1\<rparr>"
       and a = example_auth and tok = "''s3cr3t''"
       and u = "''https://api.github.com/repos/o/r/assignees''"
       and hs = "[(''Authorization'', ''token s3cr3t'')]"
       and calls = "[example_call ''assignees'' None]"
       and msg = "''connection reset''" and r = "\<lparr>status_code = 200, raw = ''r1''\<rparr>"]
    get_allowed_assignees_absorbed
    [where h = "stub_host example_options (Some example_auth)
          (Inr \<lparr>status_code = 200, raw = ''r1''\<rparr>)
          (Inr ''<html>'') (Inl (ValueError ''No JSON object could be decoded''))"
       and req = "\<lparr>user = 7\<rparr>" and grp = "\<lparr>project = 1\<rparr>"
       and a = example_auth and tok = "''s3cr3t''"
       and u = "''https://api.github.com/repos/o/r/assignees''"
       and hs = "[(''Authorization'', ''token s3cr3t'')]"
       and calls = "[example_call ''assignees'' None]"
       and msg = "''No JSON object could be decoded''"
       and r = "\<lparr>status_code = 200, raw = ''r1''\<rparr>" and body = "''<html>''"]
    get_allowed_assignees_absorbed
    [where h = "stub_host example_options (Some example_auth)
          (Inr \<lparr>status_code = 404, raw = ''r1''\<rparr>)
          (Inr ''{}'') (Inr (JObj [(''message'', JStr ''Not Found'')]))"
       and req = "\<lparr>user = 7\<rparr>" and grp = "\<lparr>project = 1\<rparr>"
       and a = example_auth and tok = "''s3cr3t''"
       and u = "''https://api.github.com/repos/o/r/assignees''"
       and hs = "[(''Authorization'', ''token s3cr3t'')]"
       and calls = "[example_call ''assignees'' None]"
       and r = "\<lparr>status_code = 404, raw = ''r1''\<rparr>" and body = "''{}''"
       and json_resp = "JObj [(''message'', JStr ''Not Found'')]"]
  by (simp add: stub_host_def example_auth_def example_options_def example_call_def
      build_request_url_eq py_or_def str_option_def)

theorem get_allowed_assignees_no_credential_counterexample:
  "get_auth_for_user
     (stub_host example_options None (Inr \<lparr>status_code = 200, raw = ''r1''\<rparr>)
        (Inr ''[]'') (Inr (JArr []))) (user \<lparr>user = 7\<rparr>) = None
   \<and> get_allowed_assignees
     (stub_host example_options None (Inr \<lparr>status_code = 200, raw = ''r1''\<rparr>)
        (Inr ''[]'') (Inr (JArr [])))
     \<lparr>user = 7\<rparr> \<lparr>project = 1\<rparr> = (Inl NotAuthenticated, [])
   \<and> fst (get_allowed_assignees
     (stub_host example_options None (Inr \<lparr>status_code = 200, raw = ''r1''\<rparr>)
        (Inr ''[]'') (Inr (JArr [])))
     \<lparr>user = 7\<rparr> \<lparr>project = 1\<rparr>) \<noteq> Inr []"
  by (simp add: stub_host_def get_allowed_assignees_def make_api_request_no_auth
      NotAuthenticated_def)

text \<open>
  A list element without a \<^verbatim>\<open>login\<close> key is not among the absorbed failures: the
  \<^verbatim>\<open>KeyError\<close> of the lookup reaches the caller.
\<close>

lemma get_allowed_assignees_unexpected_structure:
  "get_allowed_assignees
     (stub_host example_options (Some example_auth)
        (Inr \<lparr>status_code = 200, raw = ''r1''\<rparr>) (Inr ''[{id: 1}]'')
        (Inr (JArr [JObj [(''id'', JNum 1)]])))
     \<lparr>user = 7\<rparr> \<lparr>project = 1\<rparr> = (Inl (KeyError ''login''), [example_call ''assignees'' None])"
  by (simp add: get_allowed_assignees_def make_api_request_def stub_host_def example_auth_def
      example_options_def example_call_def build_request_url_eq py_or_def str_option_def)

text \<open>
  C8. With a credential, a request and a read that succeed, a body that parses to a
  list of objects with a \<^verbatim>\<open>login\<close> field each and a status of at most 399,
  \<^verbatim>\<open>get_allowed_assignees\<close> returns the pair of the empty string and \<^verbatim>\<open>Unassigned\<close>,
  then one pair (login, login) for each object, in the order of the list.
\<close>

theorem get_allowed_assignees_success:
  assumes "get_auth_for_user h (user req) = Some a"
    and "tokens a ''access_token'' = Some tok"
    and "build_request_url h grp ''assignees'' = Inr u"
    and "hs = [(''Authorization'', ''token '' @ tok)]"
    and "calls = [\<lparr>url = u, json_arg = None, headers = hs\<rparr>]"
    and "safe_urlopen h u None hs = Inr r"
    and "safe_urlread h r = Inr body"
    and "loads h body = Inr (JArr us)"
    and "status_code r \<le> 399"
    and "list_all2 (\<lambda>v l. \<exists>kvs. v = JObj kvs \<and> map_of kvs ''login'' = Some l) us logins"
  shows "get_allowed_assignees h req grp =
     (Inr ((JStr [], JStr ''Unassigned'') # map (\<lambda>l. (l, l)) logins), calls)"
  using assms(6-9) login_pairs_objects [OF assms(10)]
  by (simp add: get_allowed_assignees_after_request [OF assms(1-5)])

theorem get_allowed_assignees_success_witness:
  "get_allowed_assignees
     (stub_host example_options (Some example_auth)
        (Inr \<lparr>status_code = 200, raw = ''r1''\<rparr>) (Inr ''[alice, bob]'')
        (Inr (JArr [JObj [(''login'', JStr ''alice'')], JObj [(''login'', JStr ''bob'')]])))
     \<lparr>user = 7\<rparr> \<lparr>project = 1\<rparr> =
   (Inr [(JStr [], JStr ''Unassigned''), (JStr ''alice'', JStr ''alice''),
         (JStr ''bob'', JStr ''bob'')],
    [example_call ''assignees'' None])"
  using get_allowed_assignees_success
    [where h = "stub_host example_options (Some example_auth)
          (Inr \<lparr>status_code = 200, raw = ''r1''\<rparr>) (Inr ''[alice, bob]'')
          (Inr (JArr [JObj [(''login'', JStr ''alice'')], JObj [(''login'', JStr ''bob'')]]))"
       and req = "\<lparr>user = 7\<rparr>" and grp = "\<lparr>project = 1\<rparr>"
       and a = example_auth and tok = "''s3cr3t''"
       and u = "''https://api.github.com/repos/o/r/assignees''"
       and hs = "[(''Authorization'', ''token s3cr3t'')]"
       and calls = "[example_call ''assignees'' None]"
       and r = "\<lparr>status_code = 200, raw = ''r1''\<rparr>" and body = "''[alice, bob]''"
       and us = "[JObj [(''login'', JStr ''alice'')], JObj [(''login'', JStr ''bob'')]]"
       and logins = "[JStr ''alice'', JStr ''bob'']"]
  by (simp add: stub_host_def example_auth_def example_options_def example_call_def
      build_request_url_eq py_or_def str_option_def)

subsection \<open>The request URL, the issue label and the issue URL\<close>

lemma get_issue_url_eq:
  "get_issue_url h grp iid =
     Inr (py_or (get_option h ''github_url'' (project grp)) ''https://github.com''
          @ ''/'' @ str_option (get_option h ''repo'' (project grp)) @ ''/issues/'' @ py_str iid)"
  unfolding get_issue_url_def Let_def by (rule py_format_issue_url)

lemma str_int_42: "str_int 42 = ''42''"
  by (simp add: str_int_def str_nat.simps digit_char_def)

text \<open>
  C7, as amended. The request URL is the endpoint, \<^verbatim>\<open>/repos/\<close>, the repository, a
  slash and the API segment, where the endpoint is the stored \<^verbatim>\<open>endpoint\<close> option when
  it is set and not the empty string, and \<^verbatim>\<open>https://api.github.com\<close> otherwise (an
  unset repository prints as \<^verbatim>\<open>None\<close>). An endpoint stored as the empty string, which
  is what the options form stores for the input \<^verbatim>\<open>/\<close>, gives the default and not the
  stored value: the counterexample.
\<close>

theorem build_request_url_format:
  "build_request_url h grp api =
     Inr ((case get_option h ''endpoint'' (project grp) of
             None \<Rightarrow> ''https://api.github.com''
           | Some e \<Rightarrow> if e = [] then ''https://api.github.com'' else e)
          @ ''/repos/''
          @ (case get_option h ''repo'' (project grp) of None \<Rightarrow> ''None'' | Some r \<Rightarrow> r)
          @ ''/'' @ api)"
  by (simp add: build_request_url_eq py_or_def str_option_def)

theorem build_request_url_format_witness:
  "build_request_url
     (stub_host [''repo'' \<mapsto> ''o/r'', ''endpoint'' \<mapsto> ''https://ghe.example.com/api/v3'']
        None (Inl TypeError) (Inl TypeError) (Inl TypeError))
     \<lparr>project = 1\<rparr> ''issues'' = Inr ''https://ghe.example.com/api/v3/repos/o/r/issues''
   \<and> build_request_url
     (stub_host example_options None (Inl TypeError) (Inl TypeError) (Inl TypeError))
     \<lparr>project = 1\<rparr> ''assignees'' = Inr ''https://api.github.com/repos/o/r/assignees''"
  using build_request_url_format
    [where h = "stub_host [''repo'' \<mapsto> ''o/r'', ''endpoint'' \<mapsto> ''https://ghe.example.com/api/v3'']
        None (Inl TypeError) (Inl TypeError) (Inl TypeError)"
       and grp = "\<lparr>project = 1\<rparr>" and api = "''issues''"]
    build_request_url_format
    [where h = "stub_host example_options None (Inl TypeError) (Inl TypeError) (Inl TypeError)"
       and grp = "\<lparr>project = 1\<rparr>" and api = "''assignees''"]
  by (simp add: stub_host_def example_options_def)

theorem build_request_url_empty_endpoint_counterexample:
  "clean_endpoint [''endpoint'' \<mapsto> ''/''] = Inr []
   \<and> get_option
     (stub_host [''repo'' \<mapsto> ''o/r'', ''endpoint'' \<mapsto> []]
        None (Inl TypeError) (Inl TypeError) (Inl TypeError)) ''endpoint'' 1 = Some []
   \<and> build_request_url
     (stub_host [''repo'' \<mapsto> ''o/r'', ''endpoint'' \<mapsto> []]
        None (Inl TypeError) (Inl TypeError) (Inl TypeError))
     \<lparr>project = 1\<rparr> ''issues'' = Inr ''https://api.github.com/repos/o/r/issues''
   \<and> build_request_url
     (stub_host [''repo'' \<mapsto> ''o/r'', ''endpoint'' \<mapsto> []]
        None (Inl TypeError) (Inl TypeError) (Inl TypeError))
     \<lparr>project = 1\<rparr> ''issues'' \<noteq> Inr ([] @ ''/repos/'' @ ''o/r'' @ ''/'' @ ''issues'')"
  by (simp add: stub_host_def build_request_url_eq py_or_def str_option_def
      clean_endpoint_def rstrip_def)

text \<open>
  C9, as amended. The issue label is \<^verbatim>\<open>GH-\<close> followed by the issue identifier, and
  the issue URL is the GitHub URL, a slash, the repository, \<^verbatim>\<open>/issues/\<close> and the issue
  identifier, where the GitHub URL is the stored \<^verbatim>\<open>github_url\<close> option when it is set
  and not the empty string, and \<^verbatim>\<open>https://github.com\<close> otherwise. Both are functions of
  their inputs alone: the label does not depend on the group, and the URL depends on the
  host and the group only through the two options. A GitHub URL stored as the empty
  string gives the default and not the stored value: the counterexample.
\<close>

theorem issue_label_and_url_format:
  "get_issue_label grp iid = Inr (''GH-'' @ py_str iid)
   \<and> get_issue_url h grp iid =
     Inr ((case get_option h ''github_url'' (project grp) of
             None \<Rightarrow> ''https://github.com''
           | Some g \<Rightarrow> if g = [] then ''https://github.com'' else g)
          @ ''/''
          @ (case get_option h ''repo'' (project grp) of None \<Rightarrow> ''None'' | Some r \<Rightarrow> r)
          @ ''/issues/'' @ py_str iid)
   \<and> get_issue_label grp' iid = get_issue_label grp iid
   \<and> (get_option h' ''github_url'' (project grp') = get_option h ''github_url'' (project grp)
       \<and> get_option h' ''repo'' (project grp') = get_option h ''repo'' (project grp) \<longrightarrow>
      get_issue_url h' grp' iid = get_issue_url h grp iid)"
  by (simp add: get_issue_label_def py_format_label get_issue_url_eq py_or_def str_option_def)

theorem issue_label_and_url_format_witness:
  "get_issue_label \<lparr>project = 1\<rparr> (IntId 42) = Inr ''GH-42''
   \<and> get_issue_url
     (stub_host example_options None (Inl TypeError) (Inl TypeError) (Inl TypeError))
     \<lparr>project = 1\<rparr> (IntId 42) = Inr ''https://github.com/o/r/issues/42''
   \<and> get_issue_url
     (stub_host [''repo'' \<mapsto> ''o/r'', ''github_url'' \<mapsto> ''https://ghe.example.com'']
        (Some example_auth) (Inl TypeError) (Inl TypeError) (Inl TypeError))
     \<lparr>project = 2\<rparr> (StrId ''42'') = Inr ''https://ghe.example.com/o/r/issues/42''
   \<and> get_issue_url
     (stub_host [''repo'' \<mapsto> ''o/r'', ''github_url'' \<mapsto> ''https://ghe.example.com'']
        (Some example_auth) (Inl TypeError) (Inl TypeError) (Inl TypeError))
     \<lparr>project = 2\<rparr> (StrId ''42'') =
     get_issue_url
     (stub_host [''github_url'' \<mapsto> ''https://ghe.example.com'', ''repo'' \<mapsto> ''o/r'']
        None (Inl TypeError) (Inl TypeError) (Inl TypeError))
     \<lparr>project = 1\<rparr> (StrId ''42'')"
  using issue_label_and_url_format
    [where grp = "\<lparr>project = 1\<rparr>" and iid = "IntId 42"
       and h = "stub_host example_options None (Inl TypeError) (Inl TypeError) (Inl TypeError)"]
    issue_label_and_url_format
    [where grp = "\<lparr>project = 1\<rparr>" and iid = "StrId ''42''"
       and h = "stub_host [''github_url'' \<mapsto> ''https://ghe.example.com'', ''repo'' \<mapsto> ''o/r'']
                  None (Inl TypeError) (Inl TypeError) (Inl TypeError)"
       and grp' = "\<lparr>project = 2\<rparr>"
       and h' = "stub_host [''repo'' \<mapsto> ''o/r'', ''github_url'' \<mapsto> ''https://ghe.example.com'']
                  (Some example_auth) (Inl TypeError) (Inl TypeError) (Inl TypeError)"]
  by (simp add: stub_host_def example_options_def str_int_42)

theorem get_issue_url_empty_github_url_counterexample:
  "clean_github_url [''github_url'' \<mapsto> ''/''] = Inr []
   \<and> get_option
     (stub_host [''repo'' \<mapsto> ''o/r'', ''github_url'' \<mapsto> []]
        None (Inl TypeError) (Inl TypeError) (Inl TypeError)) ''github_url'' 1 = Some []
   \<and> get_issue_url
     (stub_host [''repo'' \<mapsto> ''o/r'', ''github_url'' \<mapsto> []]
        None (Inl TypeError) (Inl TypeError) (Inl TypeError))
     \<lparr>project = 1\<rparr> (StrId ''42'') = Inr ''https://github.com/o/r/issues/42''
   \<and> get_issue_url
     (stub_host [''repo'' \<mapsto> ''o/r'', ''github_url'' \<mapsto> []]
        None (Inl TypeError) (Inl TypeError) (Inl TypeError))
     \<lparr>project = 1\<rparr> (StrId ''42'') \<noteq> Inr ([] @ ''/'' @ ''o/r'' @ ''/issues/'' @ ''42'')"
  by (simp add: stub_host_def get_issue_url_eq py_or_def str_option_def
      clean_github_url_def rstrip_def)

subsection \<open>Trailing slashes\<close>

text \<open>
  \<^verbatim>\<open>rstrip('/')\<close> removes a run of slashes from the end and leaves no slash there; the
  double slashes of a concatenation are those of its parts and one more where a slash
  meets a slash.
\<close>

lemma takeWhile_slash:
  "takeWhile (\<lambda>c. c \<in> set ''/'') xs =
     replicate (length (takeWhile (\<lambda>c. c \<in> set ''/'') xs)) CHR ''/''"
  by (induction xs) auto

lemma rstrip_slash_decomp: "\<exists>n. d = rstrip d ''/'' @ replicate n CHR ''/''"
proof -
  define t where "t = takeWhile (\<lambda>c. c \<in> set ''/'') (rev d)"
  have "rev d = t @ dropWhile (\<lambda>c. c \<in> set ''/'') (rev d)"
    unfolding t_def by simp
  then have "rev (rev d) = rev (t @ dropWhile (\<lambda>c. c \<in> set ''/'') (rev d))"
    by (rule arg_cong)
  then have split: "d = rstrip d ''/'' @ rev t"
    by (simp add: rstrip_def)
  have "t = replicate (length t) CHR ''/''"
    unfolding t_def by (rule takeWhile_slash)
  then have "rev t = replicate (length t) CHR ''/''"
    by (metis rev_replicate)
  with split have "d = rstrip d ''/'' @ replicate (length t) CHR ''/''"
    by simp
  then show ?thesis ..
qed

lemma rstrip_slash_last: "rstrip d ''/'' = [] \<or> last (rstrip d ''/'') \<noteq> CHR ''/''"
proof (cases "dropWhile (\<lambda>c. c \<in> set ''/'') (rev d)")
  case Nil
  then show ?thesis by (simp add: rstrip_def)
next
  case (Cons x xs)
  then have "x \<noteq> CHR ''/''"
    using hd_dropWhile [of "\<lambda>c. c \<in> set ''/''" "rev d"] by simp
  with Cons show ?thesis by (simp add: rstrip_def)
qed

lemma count_ds_append:
  "count_ds (xs @ ys) = count_ds xs + count_ds ys
     + (if xs \<noteq> [] \<and> ys \<noteq> [] \<and> last xs = CHR ''/'' \<and> hd ys = CHR ''/'' then 1 else 0)"
proof (induction xs rule: count_ds.induct)
  fix a b :: char and cs :: string
  assume "count_ds ((b # cs) @ ys) = count_ds (b # cs) + count_ds ys
     + (if b # cs \<noteq> [] \<and> ys \<noteq> [] \<and> last (b # cs) = CHR ''/'' \<and> hd ys = CHR ''/''
        then 1 else 0)"
  then show "count_ds ((a # b # cs) @ ys) = count_ds (a # b # cs) + count_ds ys
     + (if a # b # cs \<noteq> [] \<and> ys \<noteq> [] \<and> last (a # b # cs) = CHR ''/'' \<and> hd ys = CHR ''/''
        then 1 else 0)"
    by simp
next
  show "count_ds ([] @ ys) = count_ds [] + count_ds ys
     + (if [] \<noteq> [] \<and> ys \<noteq> [] \<and> last [] = CHR ''/'' \<and> hd ys = CHR ''/'' then 1 else 0)"
    by simp
next
  fix v :: char
  show "count_ds ([v] @ ys) = count_ds [v] + count_ds ys
     + (if [v] \<noteq> [] \<and> ys \<noteq> [] \<and> last [v] = CHR ''/'' \<and> hd ys = CHR ''/'' then 1 else 0)"
    by (cases ys) auto
qed

lemma count_ds_request_url:
  assumes "ep = [] \<or> last ep \<noteq> CHR ''/''"
    and "repo \<noteq> []" and "hd repo \<noteq> CHR ''/''" and "last repo \<noteq> CHR ''/''"
    and "api = [] \<or> hd api \<noteq> CHR ''/''"
  shows "count_ds (ep @ ''/repos/'' @ repo @ ''/'' @ api) = count_ds ep + count_ds repo + count_ds api"
proof -
  have tail: "count_ds (''/'' @ api) = count_ds api"
    using assms(5) by (cases api) auto
  have "count_ds (repo @ ''/'' @ api) = count_ds repo + count_ds api"
    using assms(2,4) tail by (simp only: count_ds_append [of repo]) simp
  moreover have "hd (repo @ ''/'' @ api) \<noteq> CHR ''/''"
    using assms(2,3) by simp
  ultimately have "count_ds (''/repos/'' @ repo @ ''/'' @ api) = count_ds repo + count_ds api"
    by (simp only: count_ds_append [of "''/repos/''"]) simp
  then show ?thesis
    using assms(1) by (simp only: count_ds_append [of ep]) auto
qed

text \<open>
  C6, as amended. The stripping is done by the options form, not by
  \<^verbatim>\<open>build_request_url\<close>: \<^verbatim>\<open>clean_endpoint\<close> and \<^verbatim>\<open>clean_github_url\<close> return the
  entered value without its trailing slashes, and \<^verbatim>\<open>build_request_url\<close> concatenates
  the stored values as they are. So for a project whose stored endpoint is a value
  cleaned by the form, whose repository is not empty and neither starts nor ends with a
  slash, and for an API segment that does not start with a slash, the request URL has no
  double slash besides those inside the endpoint, the repository and the segment. A
  stored endpoint that ends with a slash gives a double slash before \<^verbatim>\<open>repos\<close>: the
  counterexample.
\<close>

theorem form_cleaned_endpoint_no_new_double_slash:
  assumes "clean_endpoint cleaned_data = Inr e"
    and "get_option h ''endpoint'' (project grp) = Some e"
    and "get_option h ''repo'' (project grp) = Some repo"
    and "repo \<noteq> []" and "hd repo \<noteq> CHR ''/''" and "last repo \<noteq> CHR ''/''"
    and "api = [] \<or> hd api \<noteq> CHR ''/''"
    and "ep = (if e = [] then ''https://api.github.com'' else e)"
  shows "(\<exists>n. cleaned_data ''endpoint'' = Some (e @ replicate n CHR ''/''))
       \<and> (e = [] \<or> last e \<noteq> CHR ''/'')
       \<and> (clean_github_url cleaned_data = Inr g \<longrightarrow>
            (\<exists>n. cleaned_data ''github_url'' = Some (g @ replicate n CHR ''/''))
            \<and> (g = [] \<or> last g \<noteq> CHR ''/''))
       \<and> build_request_url h grp api = Inr (ep @ ''/repos/'' @ repo @ ''/'' @ api)
       \<and> count_ds (ep @ ''/repos/'' @ repo @ ''/'' @ api)
           = count_ds ep + count_ds repo + count_ds api"
proof (intro conjI impI)
  from assms(1) obtain d where d: "cleaned_data ''endpoint'' = Some d" "e = rstrip d ''/''"
    by (auto simp: clean_endpoint_def split: option.splits)
  from rstrip_slash_decomp [of d] d
  show "\<exists>n. cleaned_data ''endpoint'' = Some (e @ replicate n CHR ''/'')"
    by auto
  from rstrip_slash_last [of d] d show e_last: "e = [] \<or> last e \<noteq> CHR ''/''"
    by simp
  show "build_request_url h grp api = Inr (ep @ ''/repos/'' @ repo @ ''/'' @ api)"
    using assms(2,3,8) by (simp add: build_request_url_eq py_or_def str_option_def)
  have "ep = [] \<or> last ep \<noteq> CHR ''/''"
    using e_last assms(8) by auto
  then show "count_ds (ep @ ''/repos/'' @ repo @ ''/'' @ api)
      = count_ds ep + count_ds repo + count_ds api"
    using assms(4-7) by (rule count_ds_request_url)
next
  assume "clean_github_url cleaned_data = Inr g"
  then obtain d where d: "cleaned_data ''github_url'' = Some d" "g = rstrip d ''/''"
    by (auto simp: clean_github_url_def split: option.splits)
  from rstrip_slash_decomp [of d] d
  show "\<exists>n. cleaned_data ''github_url'' = Some (g @ replicate n CHR ''/'')"
    by auto
  from rstrip_slash_last [of d] d show "g = [] \<or> last g \<noteq> CHR ''/''"
    by simp
qed

theorem form_cleaned_endpoint_no_new_double_slash_witness:
  "clean_endpoint [''endpoint'' \<mapsto> ''https://ghe.example.com/api/v3//'',
                   ''github_url'' \<mapsto> ''https://ghe.example.com/'']
     = Inr ''https://ghe.example.com/api/v3''
   \<and> clean_github_url [''endpoint'' \<mapsto> ''https://ghe.example.com/api/v3//'',
                   ''github_url'' \<mapsto> ''https://ghe.example.com/'']
     = Inr ''https://ghe.example.com''
   \<and> build_request_url
     (stub_host [''repo'' \<mapsto> ''o/r'', ''endpoint'' \<mapsto> ''https://ghe.example.com/api/v3'']
        None (Inl TypeError) (Inl TypeError) (Inl TypeError))
     \<lparr>project = 1\<rparr> ''issues'' = Inr ''https://ghe.example.com/api/v3/repos/o/r/issues''
   \<and> count_ds ''https://ghe.example.com/api/v3/repos/o/r/issues'' = 1"
  using form_cleaned_endpoint_no_new_double_slash
    [where cleaned_data = "[''endpoint'' \<mapsto> ''https://ghe.example.com/api/v3//'',
                            ''github_url'' \<mapsto> ''https://ghe.example.com/'']"
       and e = "''https://ghe.example.com/api/v3''"
       and h = "stub_host [''repo'' \<mapsto> ''o/r'', ''endpoint'' \<mapsto> ''https://ghe.example.com/api/v3'']
                  None (Inl TypeError) (Inl TypeError) (Inl TypeError)"
       and grp = "\<lparr>project = 1\<rparr>" and repo = "''o/r''" and api = "''issues''"
       and ep = "''https://ghe.example.com/api/v3''" and g = "''https://ghe.example.com''"]
  by (simp add: stub_host_def clean_endpoint_def clean_github_url_def rstrip_def)

theorem build_request_url_trailing_slash_counterexample:
  "get_option
     (stub_host [''repo'' \<mapsto> ''o/r'', ''endpoint'' \<mapsto> ''https://api.github.com/'']
        None (Inl TypeError) (Inl TypeError) (Inl TypeError)) ''endpoint'' 1
     = Some ''https://api.github.com/''
   \<and> build_request_url
     (stub_host [''repo'' \<mapsto> ''o/r'', ''endpoint'' \<mapsto> ''https://api.github.com/'']
        None (Inl TypeError) (Inl TypeError) (Inl TypeError))
     \<lparr>project = 1\<rparr> ''issues'' = Inr ''https://api.github.com//repos/o/r/issues''
   \<and> count_ds ''https://api.github.com//repos/o/r/issues'' = 2
   \<and> count_ds ''https://api.github.com/'' + count_ds ''o/r'' + count_ds ''issues'' = 1"
  by (simp add: stub_host_def build_request_url_eq py_or_def str_option_def)

end
